theory Spec2Isabelle
  imports Main
begin

section \<open>The command-line classifier of arguments.py\<close>

text \<open>
  The module is Python 2 (it uses the print statement and shuffles the list returned by
  \<^verbatim>\<open>dict.keys()\<close>), so the tokens of \<^verbatim>\<open>sys.argv\<close> are byte strings and the
  pattern classes are the ASCII ones: \<^verbatim>\<open>\w\<close> is \<^verbatim>\<open>[a-zA-Z0-9_]\<close> and \<^verbatim>\<open>\S\<close> is
  everything but space, tab, newline, carriage return, form feed and vertical tab.
\<close>

subsection \<open>Failures and dynamic values\<close>

datatype error = IndexError | AssertionError | AttributeError | TypeError | Raised string

text \<open>
  The values \<^verbatim>\<open>get_option\<close> handles: the option mapping stores \<^verbatim>\<open>None\<close> or a
  string, while the default, the allowed values and the result of the cast are whatever
  the caller supplies.
\<close>

datatype 'a pyval = PyNone | PyStr string | PyObj 'a

text \<open>\<^verbatim>\<open>xs[i]\<close> on a Python list: a negative index counts from the end.\<close>

definition subscript :: "'a list \<Rightarrow> int \<Rightarrow> error + 'a" where
  "subscript xs i =
     (if 0 \<le> i \<and> i < int (length xs) then Inr (xs ! nat i)
      else if - int (length xs) \<le> i \<and> i < 0 then Inr (xs ! nat (i + int (length xs)))
      else Inl IndexError)"

subsection \<open>The two patterns\<close>

definition is_word :: "char \<Rightarrow> bool" where
  "is_word c \<longleftrightarrow>
     c \<in> set ''abcdefghijklmnopqrstuvwxyzABCDEFGHIJKLMNOPQRSTUVWXYZ0123456789_''"

definition is_space :: "char \<Rightarrow> bool" where
  "is_space c \<longleftrightarrow>
     c \<in> set [CHR '' '', CHR 0x09, CHR 0x0A, CHR 0x0B, CHR 0x0C, CHR 0x0D]"

text \<open>
  \<^verbatim>\<open>re.compile(r"-(\w+)").match(argument)\<close>: the match is anchored at the start of the
  token only, the run of word characters is greedy, and nothing is required of what
  follows it. The result is the tuple \<^verbatim>\<open>groups()\<close> of the match, which has the one
  captured run as its only element; \<open>None\<close> is no match.
\<close>

definition flag_match :: "string \<Rightarrow> string list option" where
  "flag_match argument =
     (case argument of
        [] \<Rightarrow> None
      | c # rest \<Rightarrow>
          if c = CHR ''-'' \<and> takeWhile is_word rest \<noteq> []
          then Some [takeWhile is_word rest]
          else None)"

text \<open>
  \<^verbatim>\<open>re.compile(r"--(\w+)(?:=(\S+))?").match(argument)\<close>: the name is the greedy run of
  word characters after the two dashes. The optional part takes part in the match when
  the name is followed by \<^verbatim>\<open>=\<close> and at least one character that is not white space;
  otherwise the second group is \<^verbatim>\<open>None\<close>. The result is the pair \<^verbatim>\<open>groups()\<close>.
\<close>

definition option_value :: "string \<Rightarrow> string option" where
  "option_value tail =
     (case tail of
        [] \<Rightarrow> None
      | c # rest \<Rightarrow>
          if c = CHR ''='' \<and> takeWhile (\<lambda>c. \<not> is_space c) rest \<noteq> []
          then Some (takeWhile (\<lambda>c. \<not> is_space c) rest)
          else None)"

definition option_match :: "string \<Rightarrow> (string \<times> string option) option" where
  "option_match argument =
     (case argument of
        c1 # c2 # rest \<Rightarrow>
          if c1 = CHR ''-'' \<and> c2 = CHR ''-'' \<and> takeWhile is_word rest \<noteq> []
          then Some (takeWhile is_word rest, option_value (dropWhile is_word rest))
          else None
      | _ \<Rightarrow> None)"

subsection \<open>The class Simple\<close>

record Simple =
  arguments :: "string list"
  command :: string
  flags :: "string list"
  options :: "string \<rightharpoonup> string option"
  positional :: "string list"

text \<open>The body of the loop of \<^verbatim>\<open>__init__\<close>, for one argument.\<close>

definition classify :: "string \<Rightarrow> Simple \<Rightarrow> Simple" where
  "classify argument self =
     (case flag_match argument of
        Some groups \<Rightarrow>
          (let characters = map (\<lambda>flag. flag) groups
           in self\<lparr>flags := flags self @ characters\<rparr>)
      | None \<Rightarrow>
          (case option_match argument of
             Some (name, value) \<Rightarrow> self\<lparr>options := (options self)(name \<mapsto> value)\<rparr>
           | None \<Rightarrow> self\<lparr>positional := positional self @ [argument]\<rparr>))"

text \<open>The state before the loop, once the command name has been popped.\<close>

definition start :: "string \<Rightarrow> string list \<Rightarrow> Simple" where
  "start cmd args =
     \<lparr>arguments = args, command = cmd, flags = [], options = Map.empty, positional = []\<rparr>"

text \<open>
  \<^verbatim>\<open>Simple()\<close> on a given \<^verbatim>\<open>sys.argv\<close>. \<^verbatim>\<open>pop(0)\<close> raises on an empty list.
\<close>

definition Simple_init :: "string list \<Rightarrow> error + Simple" where
  "Simple_init argv =
     (case argv of
        [] \<Rightarrow> Inl IndexError
      | cmd # args \<Rightarrow> Inr (fold classify args (start cmd args)))"

definition get_command :: "Simple \<Rightarrow> string" where
  "get_command self = command self"

definition get_flags :: "Simple \<Rightarrow> string list" where
  "get_flags self = flags self"

definition get_positional :: "Simple \<Rightarrow> string list" where
  "get_positional self = positional self"

definition has_flag :: "Simple \<Rightarrow> string \<Rightarrow> bool" where
  "has_flag self name \<longleftrightarrow> name \<in> set (flags self)"

definition get_flag :: "Simple \<Rightarrow> string \<Rightarrow> 'a \<Rightarrow> 'a \<Rightarrow> 'a" where
  "get_flag self name yes no = (if has_flag self name then yes else no)"

definition has_option :: "Simple \<Rightarrow> string \<Rightarrow> bool" where
  "has_option self name \<longleftrightarrow> name \<in> dom (options self)"

text \<open>\<^verbatim>\<open>self.options.get(name, default)\<close>, the stored value read as a dynamic value.\<close>

definition options_get :: "Simple \<Rightarrow> string \<Rightarrow> 'a pyval \<Rightarrow> 'a pyval" where
  "options_get self name dflt =
     (case options self name of
        None \<Rightarrow> dflt
      | Some None \<Rightarrow> PyNone
      | Some (Some text) \<Rightarrow> PyStr text)"

text \<open>
  \<^verbatim>\<open>get_option\<close>: \<open>values = None\<close> is the parameter left at its default. The cast is the
  caller's function and may raise; what it raises goes through.
\<close>

definition get_option ::
  "Simple \<Rightarrow> string \<Rightarrow> 'a pyval \<Rightarrow> 'a pyval list option \<Rightarrow>
     ('a pyval \<Rightarrow> error + 'a pyval) \<Rightarrow> error + 'a pyval" where
  "get_option self name dflt values cast =
     (case (case values of None \<Rightarrow> Inr dflt | Some vs \<Rightarrow> subscript vs 0) of
        Inl e \<Rightarrow> Inl e
      | Inr dflt' \<Rightarrow>
          (case cast (options_get self name dflt') of
             Inl e \<Rightarrow> Inl e
           | Inr value \<Rightarrow>
               (case values of
                  None \<Rightarrow> Inr value
                | Some vs \<Rightarrow> if value \<in> set vs then Inr value else Inl AssertionError)))"

definition get_options :: "Simple \<Rightarrow> (string \<rightharpoonup> string option)" where
  "get_options self = options self"

definition get_index :: "Simple \<Rightarrow> int \<Rightarrow> error + string" where
  "get_index self index = subscript (positional self) index"

fun has_any :: "Simple \<Rightarrow> string list \<Rightarrow> bool" where
  "has_any self [] = False"
| "has_any self (name # names) =
     (if has_flag self name then True
      else if has_option self name then True
      else has_any self names)"

fun has_all :: "Simple \<Rightarrow> string list \<Rightarrow> bool" where
  "has_all self [] = True"
| "has_all self (name # names) =
     (if has_flag self name then has_all self names
      else if has_option self name then has_all self names
      else False)"

subsection \<open>What a pass of the loop contributes\<close>

text \<open>
  What the token \<open>argument\<close> has contributed, read off the three collections of the
  classifier before it and after it. Flag entries: the flag list has grown by entries
  whose characters, read in order, stand in the token right after its dash, and nothing
  else has changed. One option entry: the mapping after it is the mapping before it
  with the name that stands in the token after its two dashes set, and nothing else has
  changed. One positional entry: the positional list has grown by the token itself,
  and nothing else has changed.
\<close>

definition adds_flags :: "string \<Rightarrow> Simple \<Rightarrow> Simple \<Rightarrow> bool" where
  "adds_flags argument before after \<longleftrightarrow>
     (\<exists>entries tail. concat entries \<noteq> [] \<and> argument = CHR ''-'' # concat entries @ tail \<and>
        flags after = flags before @ entries) \<and>
     options after = options before \<and>
     positional after = positional before"

definition sets_option :: "string \<Rightarrow> Simple \<Rightarrow> Simple \<Rightarrow> bool" where
  "sets_option argument before after \<longleftrightarrow>
     flags after = flags before \<and>
     (\<exists>name tail value. name \<noteq> [] \<and> argument = ''--'' @ name @ tail \<and>
        options after = (options before)(name \<mapsto> value)) \<and>
     positional after = positional before"

definition adds_positional :: "string \<Rightarrow> Simple \<Rightarrow> Simple \<Rightarrow> bool" where
  "adds_positional argument before after \<longleftrightarrow>
     flags after = flags before \<and>
     options after = options before \<and>
     positional after = positional before @ [argument]"

subsection \<open>The module-level functions\<close>

text \<open>
  The module builds one \<^verbatim>\<open>parser = Simple()\<close> when it is loaded and its functions read
  that instance; here the instance is a parameter. \<^verbatim>\<open>command\<close> takes \<^verbatim>\<open>strip\<close> and
  does not look at it.
\<close>

definition module_command :: "bool \<Rightarrow> Simple \<Rightarrow> string" where
  "module_command strip parser = get_command parser"

text \<open>
  \<^verbatim>\<open>first\<close>, \<^verbatim>\<open>second\<close> and \<^verbatim>\<open>third\<close> evaluate \<^verbatim>\<open>parser.index(n)\<close>: the attribute
  is looked up on the instance first and the result is called only when the lookup
  succeeds. An instance of \<^verbatim>\<open>Simple\<close> has the five attributes that \<^verbatim>\<open>__init__\<close> sets
  and the methods of the class body. (The names inherited from \<^verbatim>\<open>object\<close>, which all
  begin with two underscores, are left out.)
\<close>

datatype member = Field string | Method string

definition Simple_fields :: "string list" where
  "Simple_fields = [''arguments'', ''command'', ''flags'', ''options'', ''positional'']"

definition Simple_methods :: "string list" where
  "Simple_methods =
     [''__init__'', ''get_command'', ''get_flags'', ''get_positional'', ''has_flag'',
      ''get_flag'', ''has_option'', ''get_option'', ''get_options'', ''get_index'',
      ''has_any'', ''has_all'']"

definition getattr :: "string \<Rightarrow> error + member" where
  "getattr name =
     (if name \<in> set Simple_fields then Inr (Field name)
      else if name \<in> set Simple_methods then Inr (Method name)
      else Inl AttributeError)"

text \<open>
  What a member returns when it is called with one integer: the attributes are lists,
  a string and a dict, none callable; the methods without a parameter reject the
  argument; the membership tests find no integer among the strings; \<^verbatim>\<open>get_option\<close>
  returns its default \<^verbatim>\<open>None\<close>; \<^verbatim>\<open>get_index\<close> indexes the positional list.
\<close>

datatype result = RStr string | RBool bool | RNone

definition call_member :: "Simple \<Rightarrow> member \<Rightarrow> int \<Rightarrow> error + result" where
  "call_member self m i =
     (case m of
        Field name \<Rightarrow> Inl TypeError
      | Method name \<Rightarrow>
          if name = ''get_index'' then map_sum id RStr (get_index self i)
          else if name \<in> set [''has_flag'', ''get_flag'', ''has_option'', ''has_any'', ''has_all'']
          then Inr (RBool False)
          else if name = ''get_option'' then Inr RNone
          else Inl TypeError)"

definition call_attribute :: "Simple \<Rightarrow> string \<Rightarrow> int \<Rightarrow> error + result" where
  "call_attribute self name i =
     (case getattr name of Inl e \<Rightarrow> Inl e | Inr m \<Rightarrow> call_member self m i)"

definition first :: "Simple \<Rightarrow> error + result" where
  "first parser = call_attribute parser ''index'' 0"

definition second :: "Simple \<Rightarrow> error + result" where
  "second parser = call_attribute parser ''index'' 1"

definition third :: "Simple \<Rightarrow> error + result" where
  "third parser = call_attribute parser ''index'' 2"

subsection \<open>The argument vector of the self-test\<close>

text \<open>
  \<^verbatim>\<open>check_arguments\<close> builds \<^verbatim>\<open>sys.argv\<close> from a command, the positional arguments,
  the flag characters and the options, after shuffling the flags and the option names.
  The lists given here are the shuffled ones: \<open>flag_chars\<close> in the order the shuffle
  left them, and the dict as its items in the order of the shuffled names. A value
  that Python takes for false (\<^verbatim>\<open>None\<close> or the empty string) adds no \<^verbatim>\<open>=value\<close>.
\<close>

definition option_token :: "string \<times> string option \<Rightarrow> string" where
  "option_token item =
     (case item of
        (name, None) \<Rightarrow> ''--'' @ name
      | (name, Some v) \<Rightarrow> if v \<noteq> [] then ''--'' @ name @ ''='' @ v else ''--'' @ name)"

text \<open>
  What the vector keeps of an option value: the empty string is written like \<^verbatim>\<open>None\<close>.
\<close>

definition written_value :: "string option \<Rightarrow> string option" where
  "written_value v = (if v = Some [] then None else v)"

definition build_arguments ::
  "string \<Rightarrow> string list \<Rightarrow> char list \<Rightarrow> (string \<times> string option) list \<Rightarrow> string list" where
  "build_arguments cmd args flag_chars items =
     [cmd] @ args @ map (\<lambda>character. ''-'' @ [character]) flag_chars @ map option_token items"

section \<open>Properties\<close>

subsection \<open>The loop, collection by collection\<close>

lemma classify_positional:
  "positional (fold classify xs s) =
     positional s @ filter (\<lambda>t. flag_match t = None \<and> option_match t = None) xs"
  by (induction xs arbitrary: s) (auto simp: classify_def split: option.splits)

lemma classify_flags:
  "flags (fold classify xs s) =
     flags s @ concat (map (\<lambda>t. case flag_match t of None \<Rightarrow> [] | Some g \<Rightarrow> g) xs)"
  by (induction xs arbitrary: s) (auto simp: classify_def split: option.splits)

lemma classify_options:
  "options (fold classify xs s) =
     options s ++
     map_of (rev (List.map_filter
       (\<lambda>t. if flag_match t = None then option_match t else None) xs))"
  by (induction xs arbitrary: s)
     (auto simp: classify_def List.map_filter_simps map_add_upd_left split: option.splits)

lemma classify_command: "command (fold classify xs s) = command s"
  by (induction xs arbitrary: s) (auto simp: classify_def split: option.splits)

lemmas eval_defs =
  Simple_init_def start_def classify_def flag_match_def option_match_def option_value_def
  is_word_def is_space_def

subsection \<open>One pass of the loop\<close>

lemma classify_update_arguments:
  "classify t (s\<lparr>arguments := a\<rparr>) = (classify t s)\<lparr>arguments := a\<rparr>"
  by (simp add: classify_def split: option.splits)

lemma fold_classify_update_arguments:
  "fold classify xs (s\<lparr>arguments := a\<rparr>) = (fold classify xs s)\<lparr>arguments := a\<rparr>"
  by (induction xs arbitrary: s) (simp_all add: classify_update_arguments)

lemma Simple_init_snoc:
  assumes "Simple_init (cmd # xs) = Inr before"
    and "Simple_init (cmd # xs @ [t]) = Inr after"
  shows "after = (classify t before)\<lparr>arguments := xs @ [t]\<rparr>"
proof -
  have s: "start cmd (xs @ [t]) = (start cmd xs)\<lparr>arguments := xs @ [t]\<rparr>"
    by (simp add: start_def)
  have b: "before = fold classify xs (start cmd xs)"
    using assms(1) by (simp add: Simple_init_def)
  have "after = classify t (fold classify xs (start cmd (xs @ [t])))"
    using assms(2) by (simp add: Simple_init_def)
  then show ?thesis
    unfolding s fold_classify_update_arguments classify_update_arguments b by simp
qed

lemma flag_match_shape:
  assumes "flag_match t = Some g"
  shows "\<exists>run tail. run \<noteq> [] \<and> t = CHR ''-'' # run @ tail \<and> g = [run]"
proof -
  from assms obtain rest where t: "t = CHR ''-'' # rest"
    and r: "takeWhile is_word rest \<noteq> []" and g: "g = [takeWhile is_word rest]"
    by (auto simp: flag_match_def split: list.splits if_splits)
  have "t = CHR ''-'' # takeWhile is_word rest @ dropWhile is_word rest"
    using t by simp
  with r g show ?thesis by blast
qed

lemma option_match_shape:
  assumes "option_match t = Some (name, v)"
  shows "\<exists>tail. name \<noteq> [] \<and> t = ''--'' @ name @ tail"
proof -
  from assms obtain rest where t: "t = CHR ''-'' # CHR ''-'' # rest"
    and n: "takeWhile is_word rest \<noteq> []" "name = takeWhile is_word rest"
    by (auto simp: option_match_def split: list.splits if_splits)
  have "t = ''--'' @ takeWhile is_word rest @ dropWhile is_word rest"
    using t by simp
  with n show ?thesis by blast
qed

lemma classify_exactly_one:
  "(adds_flags t s (classify t s) \<and> \<not> sets_option t s (classify t s) \<and>
      \<not> adds_positional t s (classify t s)) \<or>
   (\<not> adds_flags t s (classify t s) \<and> sets_option t s (classify t s) \<and>
      \<not> adds_positional t s (classify t s)) \<or>
   (\<not> adds_flags t s (classify t s) \<and> \<not> sets_option t s (classify t s) \<and>
      adds_positional t s (classify t s))"
proof (cases "flag_match t")
  case (Some g)
  from flag_match_shape [OF Some] obtain run tail
    where run: "run \<noteq> []" and t: "t = CHR ''-'' # run @ tail" and g: "g = [run]"
    by blast
  have c: "classify t s = s\<lparr>flags := flags s @ [run]\<rparr>"
    using Some g by (simp add: classify_def)
  have "concat [run] \<noteq> [] \<and> t = CHR ''-'' # concat [run] @ tail \<and>
      flags (classify t s) = flags s @ [run]"
    using run t c by simp
  then have "adds_flags t s (classify t s)"
    unfolding adds_flags_def using c by (intro conjI exI) simp_all
  moreover have "\<not> sets_option t s (classify t s)"
    unfolding sets_option_def c by simp
  moreover have "\<not> adds_positional t s (classify t s)"
    unfolding adds_positional_def c by simp
  ultimately show ?thesis by blast
next
  case None
  show ?thesis
  proof (cases "option_match t")
    case (Some nv)
    obtain n v where nv: "nv = (n, v)" by (cases nv)
    from option_match_shape [of t n v] Some nv obtain tail
      where n: "n \<noteq> []" and t: "t = ''--'' @ n @ tail"
      by auto
    have c: "classify t s = s\<lparr>options := (options s)(n \<mapsto> v)\<rparr>"
      using None Some nv by (simp add: classify_def)
    have "n \<noteq> [] \<and> t = ''--'' @ n @ tail \<and>
        options (classify t s) = (options s)(n \<mapsto> v)"
      using n t c by simp
    then have "sets_option t s (classify t s)"
      unfolding sets_option_def using c by (intro conjI exI) simp_all
    moreover have "\<not> adds_flags t s (classify t s)"
      unfolding adds_flags_def c by auto
    moreover have "\<not> adds_positional t s (classify t s)"
      unfolding adds_positional_def c by simp
    ultimately show ?thesis by blast
  next
    case none: None
    have c: "classify t s = s\<lparr>positional := positional s @ [t]\<rparr>"
      using None none by (simp add: classify_def)
    have "adds_positional t s (classify t s)"
      unfolding adds_positional_def c by simp
    moreover have "\<not> adds_flags t s (classify t s)"
      unfolding adds_flags_def c by simp
    moreover have "\<not> sets_option t s (classify t s)"
      unfolding sets_option_def c by simp
    ultimately show ?thesis by blast
  qed
qed

lemma contribution_update_arguments:
  "adds_flags t s (s'\<lparr>arguments := a\<rparr>) = adds_flags t s s'"
  "sets_option t s (s'\<lparr>arguments := a\<rparr>) = sets_option t s s'"
  "adds_positional t s (s'\<lparr>arguments := a\<rparr>) = adds_positional t s s'"
  by (simp_all add: adds_flags_def sets_option_def adds_positional_def)

subsection \<open>The two patterns on tokens of a known shape\<close>


lemma not_word_dash: "\<not> is_word CHR ''-''"
  by (simp add: is_word_def)

lemma not_word_equals: "\<not> is_word CHR ''=''"
  by (simp add: is_word_def)

lemma takeWhile_run:
  "\<forall>c\<in>set run. P c \<Longrightarrow> tail = [] \<or> \<not> P (hd tail) \<Longrightarrow> takeWhile P (run @ tail) = run"
  by (cases tail) (simp_all add: takeWhile_append2)

lemma dropWhile_run:
  "\<forall>c\<in>set run. P c \<Longrightarrow> tail = [] \<or> \<not> P (hd tail) \<Longrightarrow> dropWhile P (run @ tail) = tail"
  by (cases tail) (simp_all add: dropWhile_append2)

lemma flag_match_run:
  "run \<noteq> [] \<Longrightarrow> \<forall>c\<in>set run. is_word c \<Longrightarrow> tail = [] \<or> \<not> is_word (hd tail) \<Longrightarrow>
     flag_match (CHR ''-'' # run @ tail) = Some [run]"
  using takeWhile_run [where run = run and P = is_word and tail = tail]
  by (simp add: flag_match_def del: takeWhile_append)

lemma flag_match_two_dashes: "flag_match (CHR ''-'' # CHR ''-'' # rest) = None"
  by (simp add: flag_match_def not_word_dash)

lemma option_match_name:
  "name \<noteq> [] \<Longrightarrow> \<forall>c\<in>set name. is_word c \<Longrightarrow> tail = [] \<or> \<not> is_word (hd tail) \<Longrightarrow>
     option_match (''--'' @ name @ tail) = Some (name, option_value tail)"
  using takeWhile_run [where run = name and P = is_word and tail = tail]
    dropWhile_run [where run = name and P = is_word and tail = tail]
  by (simp add: option_match_def del: takeWhile_append dropWhile_append)

lemma option_value_run:
  "v \<noteq> [] \<Longrightarrow> \<forall>c\<in>set v. \<not> is_space c \<Longrightarrow> tail = [] \<or> is_space (hd tail) \<Longrightarrow>
     option_value (CHR ''='' # v @ tail) = Some v"
  using takeWhile_run [where run = v and P = "\<lambda>c. \<not> is_space c" and tail = tail]
  by (simp add: option_value_def del: takeWhile_append)

lemma classify_flag_token:
  "run \<noteq> [] \<Longrightarrow> \<forall>c\<in>set run. is_word c \<Longrightarrow> tail = [] \<or> \<not> is_word (hd tail) \<Longrightarrow>
     classify (CHR ''-'' # run @ tail) self = self\<lparr>flags := flags self @ [run]\<rparr>"
  by (simp add: classify_def flag_match_run)

lemma classify_option_token:
  "name \<noteq> [] \<Longrightarrow> \<forall>c\<in>set name. is_word c \<Longrightarrow> tail = [] \<or> \<not> is_word (hd tail) \<Longrightarrow>
     classify (''--'' @ name @ tail) self
       = self\<lparr>options := (options self)(name \<mapsto> option_value tail)\<rparr>"
  using option_match_name [of name tail] by (simp add: classify_def flag_match_two_dashes)

lemma classify_dom_mono: "dom (options s) \<subseteq> dom (options (classify t s))"
  by (auto simp: classify_def split: option.splits)

lemma fold_classify_dom_mono: "dom (options s) \<subseteq> dom (options (fold classify xs s))"
proof (induction xs arbitrary: s)
  case Nil
  show ?case by simp
next
  case (Cons t ts)
  have "dom (options s) \<subseteq> dom (options (classify t s))" by (rule classify_dom_mono)
  also have "\<dots> \<subseteq> dom (options (fold classify ts (classify t s)))" by (rule Cons.IH)
  finally show ?case by simp
qed

lemma fold_classify_has_option:
  assumes "t \<in> set xs" and "flag_match t = None" and "option_match t = Some (name, v)"
  shows "name \<in> dom (options (fold classify xs s))"
  using assms(1)
proof (induction xs arbitrary: s)
  case Nil
  then show ?case by simp
next
  case (Cons x xs)
  show ?case
  proof (cases "x = t")
    case True
    have "name \<in> dom (options (classify t s))"
      using assms(2,3) by (simp add: classify_def)
    with fold_classify_dom_mono [of "classify t s" xs] True show ?thesis by auto
  next
    case False
    with Cons.prems have "t \<in> set xs" by simp
    from Cons.IH [OF this] show ?thesis by simp
  qed
qed

lemma option_value_none:
  "tail = [] \<or> hd tail \<noteq> CHR ''='' \<or> tl tail = [] \<or> is_space (hd (tl tail)) \<Longrightarrow>
     option_value tail = None"
proof (cases tail)
  case Nil
  then show ?thesis by (simp add: option_value_def)
next
  case (Cons c rest)
  assume a: "tail = [] \<or> hd tail \<noteq> CHR ''='' \<or> tl tail = [] \<or> is_space (hd (tl tail))"
  show ?thesis
  proof (cases rest)
    case Nil
    with Cons show ?thesis by (simp add: option_value_def)
  next
    case (Cons d rest')
    with \<open>tail = c # rest\<close> a show ?thesis by (auto simp: option_value_def)
  qed
qed

lemma positional_matches_neither:
  assumes "Simple_init (cmd # args) = Inr parser" and "t \<in> set (positional parser)"
  shows "flag_match t = None \<and> option_match t = None"
  using assms by (auto simp: Simple_init_def classify_positional start_def)

lemma Simple_init_snoc_collections:
  assumes "Simple_init (cmd # xs) = Inr before"
    and "Simple_init (cmd # xs @ [t]) = Inr after"
  shows "flags after = flags (classify t before)"
    and "options after = options (classify t before)"
    and "positional after = positional (classify t before)"
  using Simple_init_snoc [OF assms] by simp_all

subsection \<open>The tokens of the self-test\<close>


lemma classify_arguments: "arguments (fold classify xs s) = arguments s"
  by (induction xs arbitrary: s) (auto simp: classify_def split: option.splits)

lemma flag_match_character: "is_word c \<Longrightarrow> flag_match (''-'' @ [c]) = Some [[c]]"
  by (simp add: flag_match_def)

lemma option_token_matches:
  assumes "name \<noteq> []" and "\<forall>c\<in>set name. is_word c"
    and "case v of None \<Rightarrow> True | Some x \<Rightarrow> \<forall>c\<in>set x. \<not> is_space c"
  shows "flag_match (option_token (name, v)) = None"
    and "option_match (option_token (name, v)) = Some (name, written_value v)"
proof -
  show "flag_match (option_token (name, v)) = None"
    by (cases v) (simp_all add: option_token_def flag_match_two_dashes)
  have bare: "option_match (''--'' @ name) = Some (name, None)"
    using assms(1,2) option_match_name [of name "[]"] by (simp add: option_value_def)
  show "option_match (option_token (name, v)) = Some (name, written_value v)"
  proof (cases v)
    case None
    with bare show ?thesis by (simp add: option_token_def written_value_def)
  next
    case (Some x)
    show ?thesis
    proof (cases "x = []")
      case True
      with Some bare show ?thesis by (simp add: option_token_def written_value_def)
    next
      case False
      from Some assms(3) have x: "\<forall>c\<in>set x. \<not> is_space c" by simp
      have "option_value (CHR ''='' # x @ []) = Some x"
        using False x by (intro option_value_run) simp_all
      moreover have "option_match (''--'' @ name @ (CHR ''='' # x))
          = Some (name, option_value (CHR ''='' # x))"
        using assms(1,2) by (intro option_match_name) (simp_all add: not_word_equals)
      ultimately show ?thesis
        using Some False by (simp add: option_token_def written_value_def)
    qed
  qed
qed

lemma map_of_rev_distinct: "distinct (map fst xs) \<Longrightarrow> map_of (rev xs) = map_of xs"
  by (subst map_of_inject_set) (simp_all add: rev_map [symmetric] del: rev_map)

lemma tokens_positional:
  assumes "\<forall>p\<in>set args. flag_match p = None \<and> option_match p = None"
    and "\<forall>c\<in>set flag_chars. is_word c"
    and "\<forall>item\<in>set items. option_match (option_token item) \<noteq> None"
  shows "filter (\<lambda>t. flag_match t = None \<and> option_match t = None)
           (args @ map (\<lambda>character. ''-'' @ [character]) flag_chars @ map option_token items) = args"
proof -
  have "filter (\<lambda>t. flag_match t = None \<and> option_match t = None) args = args"
    using assms(1) by (simp add: filter_id_conv)
  moreover have "filter (\<lambda>t. flag_match t = None \<and> option_match t = None)
      (map (\<lambda>character. ''-'' @ [character]) flag_chars) = []"
    using assms(2) flag_match_character by (auto simp: filter_empty_conv simp del: append.simps)
  moreover have "filter (\<lambda>t. flag_match t = None \<and> option_match t = None)
      (map option_token items) = []"
    using assms(3) by (auto simp: filter_empty_conv)
  ultimately show ?thesis
    by (simp only: filter_append append_Nil2)
qed

lemma tokens_flags:
  assumes "\<forall>p\<in>set args. flag_match p = None \<and> option_match p = None"
    and "\<forall>c\<in>set flag_chars. is_word c"
    and "\<forall>item\<in>set items. flag_match (option_token item) = None"
  shows "concat (map (\<lambda>t. case flag_match t of None \<Rightarrow> [] | Some g \<Rightarrow> g)
           (args @ map (\<lambda>character. ''-'' @ [character]) flag_chars @ map option_token items))
         = map (\<lambda>character. [character]) flag_chars"
proof -
  have "concat (map (\<lambda>t. case flag_match t of None \<Rightarrow> [] | Some g \<Rightarrow> g) args) = []"
    using assms(1) by simp
  moreover have "concat (map (\<lambda>t. case flag_match t of None \<Rightarrow> [] | Some g \<Rightarrow> g)
      (map (\<lambda>character. ''-'' @ [character]) flag_chars)) = map (\<lambda>character. [character]) flag_chars"
    using assms(2)
  proof (induction flag_chars)
    case Nil
    show ?case by simp
  next
    case (Cons c cs)
    then have "flag_match (''-'' @ [c]) = Some [[c]]"
      by (simp add: flag_match_character del: append.simps)
    with Cons show ?case by (simp del: append.simps)
  qed
  moreover have "concat (map (\<lambda>t. case flag_match t of None \<Rightarrow> [] | Some g \<Rightarrow> g)
      (map option_token items)) = []"
    using assms(3) by simp
  ultimately show ?thesis
    by (simp only: map_append concat_append append_Nil append_Nil2)
qed

lemma tokens_options:
  assumes "\<forall>p\<in>set args. flag_match p = None \<and> option_match p = None"
    and "\<forall>c\<in>set flag_chars. is_word c"
    and "\<forall>item\<in>set items. flag_match (option_token item) = None \<and>
           option_match (option_token item) = Some (fst item, written_value (snd item))"
  shows "List.map_filter (\<lambda>t. if flag_match t = None then option_match t else None)
           (args @ map (\<lambda>character. ''-'' @ [character]) flag_chars @ map option_token items)
         = map (\<lambda>item. (fst item, written_value (snd item))) items"
proof -
  have "List.map_filter (\<lambda>t. if flag_match t = None then option_match t else None) args = []"
    using assms(1) by (simp add: List.map_filter_def filter_empty_conv)
  moreover have "List.map_filter (\<lambda>t. if flag_match t = None then option_match t else None)
      (map (\<lambda>character. ''-'' @ [character]) flag_chars) = []"
    using assms(2) flag_match_character
    by (auto simp: List.map_filter_def filter_empty_conv simp del: append.simps)
  moreover have "List.map_filter (\<lambda>t. if flag_match t = None then option_match t else None)
      (map option_token items) = map (\<lambda>item. (fst item, written_value (snd item))) items"
    using assms(3) by (induction items) simp_all
  ultimately show ?thesis by (simp add: List.map_filter_def)
qed

subsection \<open>The claims\<close>

text \<open>
  C1. The claim: a token \<^verbatim>\<open>-abc\<close> registers the flags \<^verbatim>\<open>a\<close>, \<^verbatim>\<open>b\<close> and \<^verbatim>\<open>c\<close>, each
  found by \<^verbatim>\<open>has_flag\<close>. The code iterates over \<^verbatim>\<open>flag_match.groups()\<close>, the tuple of
  captured groups, and not over the captured string: on \<^verbatim>\<open>['prog', '-abc']\<close> the flag
  list is \<^verbatim>\<open>['abc']\<close>, \<^verbatim>\<open>has_flag\<close> fails on each of the three characters and
  succeeds on the whole run only.
\<close>

theorem flag_run_kept_whole:
  "map_sum id flags (Simple_init [''prog'', ''-abc'']) = Inr [''abc''] \<and>
   map_sum id (\<lambda>parser. (has_flag parser ''a'', has_flag parser ''b'', has_flag parser ''c'',
       has_flag parser ''abc'')) (Simple_init [''prog'', ''-abc''])
     = Inr (False, False, False, True)"
  by (simp add: eval_defs has_flag_def)

text \<open>
  C2. The claim: for every command, positional list, flag list and option mapping, the
  vector built from them is classified back into exactly the positional list, the
  flags and the option mapping, with an absent value kept apart from an empty string.
  It fails: the builder writes a value that is the empty string as \<^verbatim>\<open>--key\<close>, like an
  absent one, and the classifier reads \<^verbatim>\<open>None\<close>; a positional argument \<^verbatim>\<open>-x\<close> comes
  back as a flag; a flag character \<^verbatim>\<open>!\<close> comes back as the positional argument
  \<^verbatim>\<open>-!\<close>; a value \<^verbatim>\<open>a b\<close> comes back as \<^verbatim>\<open>a\<close>; an option named \<^verbatim>\<open>my-opt\<close> comes back
  as the option \<^verbatim>\<open>my\<close> without a value.
\<close>

theorem round_trip_counterexample:
  "map_sum id (\<lambda>parser. options parser ''key'')
     (Simple_init (build_arguments ''prog'' [] [] [(''key'', Some [])])) = Inr (Some None) \<and>
   map_of [(''key'', Some [])] ''key'' = Some (Some []) \<and>
   map_sum id (\<lambda>parser. (positional parser, flags parser))
     (Simple_init (build_arguments ''prog'' [''-x''] [] [])) = Inr ([], [''x'']) \<and>
   map_sum id (\<lambda>parser. (positional parser, flags parser))
     (Simple_init (build_arguments ''prog'' [] ''!'' [])) = Inr ([''-!''], []) \<and>
   map_sum id (\<lambda>parser. options parser ''key'')
     (Simple_init (build_arguments ''prog'' [] [] [(''key'', Some ''a b'')]))
     = Inr (Some (Some ''a'')) \<and>
   map_sum id (\<lambda>parser. (options parser ''my-opt'', options parser ''my''))
     (Simple_init (build_arguments ''prog'' [] [] [(''my-opt'', Some ''1'')]))
     = Inr (None, Some None)"
  by (simp add: build_arguments_def option_token_def eval_defs)

text \<open>
  C2, as amended. The round trip holds when the positional arguments match neither
  pattern, the flags are word characters, the option names are non-empty runs of word
  characters (distinct, being the keys of a dict), and every option value is absent or
  a string without white space. The classifier built from the vector then has the
  command, the positional list in order, one flag entry for each flag character in the
  order of the vector (so the same flags up to membership, whatever the shuffle did),
  and the option mapping, key to value, except that a value that is the empty string
  comes back absent.
\<close>

theorem round_trip:
  assumes args: "\<forall>p\<in>set args. flag_match p = None \<and> option_match p = None"
    and chars: "\<forall>c\<in>set flag_chars. is_word c"
    and keys: "distinct (map fst items)"
    and items: "\<forall>(name, v)\<in>set items.
        name \<noteq> [] \<and> (\<forall>c\<in>set name. is_word c) \<and>
        (case v of None \<Rightarrow> True | Some x \<Rightarrow> \<forall>c\<in>set x. \<not> is_space c)"
  shows "Simple_init (build_arguments cmd args flag_chars items) =
     Inr \<lparr>arguments = tl (build_arguments cmd args flag_chars items),
          command = cmd,
          flags = map (\<lambda>character. [character]) flag_chars,
          options = map_of (map (\<lambda>(name, v). (name, written_value v)) items),
          positional = args\<rparr>"
proof -
  let ?tokens = "args @ map (\<lambda>character. ''-'' @ [character]) flag_chars @ map option_token items"
  let ?parser = "fold classify ?tokens (start cmd ?tokens)"
  let ?kept = "map (\<lambda>item. (fst item, written_value (snd item))) items"
  have m: "\<forall>item\<in>set items. flag_match (option_token item) = None \<and>
           option_match (option_token item) = Some (fst item, written_value (snd item))"
  proof
    fix item assume i: "item \<in> set items"
    obtain name v where nv: "item = (name, v)" by (cases item)
    with i items have "name \<noteq> []" "\<forall>c\<in>set name. is_word c"
      "case v of None \<Rightarrow> True | Some x \<Rightarrow> \<forall>c\<in>set x. \<not> is_space c"
      by auto
    from option_token_matches [OF this] nv
    show "flag_match (option_token item) = None \<and>
        option_match (option_token item) = Some (fst item, written_value (snd item))"
      by simp
  qed
  have k: "?kept = map (\<lambda>(name, v). (name, written_value v)) items"
    by (simp add: case_prod_unfold)
  have d: "distinct (map fst ?kept)"
    using keys by (simp add: comp_def)
  have "arguments ?parser = ?tokens"
    by (simp only: classify_arguments) (simp add: start_def)
  moreover have "command ?parser = cmd"
    by (simp only: classify_command) (simp add: start_def)
  moreover have "flags ?parser = map (\<lambda>character. [character]) flag_chars"
    using tokens_flags [OF args chars, of items] m
    by (simp only: classify_flags) (simp add: start_def)
  moreover have "options ?parser = map_of ?kept"
    using tokens_options [OF args chars m] map_of_rev_distinct [OF d]
    by (simp only: classify_options) (simp add: start_def)
  moreover have "positional ?parser = args"
    using tokens_positional [OF args chars, of items] m
    by (simp only: classify_positional) (simp add: start_def)
  ultimately have "?parser = \<lparr>arguments = ?tokens, command = cmd,
      flags = map (\<lambda>character. [character]) flag_chars, options = map_of ?kept,
      positional = args\<rparr>"
    by (intro Simple.equality) simp_all
  then show ?thesis
    unfolding k by (simp add: Simple_init_def build_arguments_def)
qed

theorem round_trip_witness:
  "Simple_init (build_arguments ''options'' [''first'', ''second''] ''abc''
       [(''first'', Some ''1.2''), (''second'', Some ''!?''), (''third'', None),
        (''fourth'', Some [])]) =
     Inr \<lparr>arguments = [''first'', ''second'', ''-a'', ''-b'', ''-c'',
                       ''--first=1.2'', ''--second=!?'', ''--third'', ''--fourth''],
          command = ''options'',
          flags = [''a'', ''b'', ''c''],
          options = map_of [(''first'', Some ''1.2''), (''second'', Some ''!?''),
                            (''third'', None), (''fourth'', None)],
          positional = [''first'', ''second'']\<rparr>"
proof -
  let ?items = "[(''first'', Some ''1.2''), (''second'', Some ''!?''), (''third'', None),
        (''fourth'', Some [])]"
  have "Simple_init (build_arguments ''options'' [''first'', ''second''] ''abc'' ?items) =
     Inr \<lparr>arguments = tl (build_arguments ''options'' [''first'', ''second''] ''abc'' ?items),
          command = ''options'',
          flags = map (\<lambda>character. [character]) ''abc'',
          options = map_of (map (\<lambda>(name, v). (name, written_value v)) ?items),
          positional = [''first'', ''second'']\<rparr>"
    by (rule round_trip)
       (simp_all add: flag_match_def option_match_def is_word_def is_space_def)
  moreover have "tl (build_arguments ''options'' [''first'', ''second''] ''abc'' ?items)
      = [''first'', ''second'', ''-a'', ''-b'', ''-c'', ''--first=1.2'', ''--second=!?'',
         ''--third'', ''--fourth'']"
    by (simp add: build_arguments_def option_token_def)
  moreover have "map (\<lambda>character. [character]) ''abc'' = [''a'', ''b'', ''c'']"
    by simp
  moreover have "map (\<lambda>(name, v). (name, written_value v)) ?items
      = [(''first'', Some ''1.2''), (''second'', Some ''!?''), (''third'', None),
         (''fourth'', None)]"
    by (simp add: written_value_def)
  ultimately show ?thesis by (simp only:)
qed

text \<open>
  C3. Every argument token is classified into exactly one collection. Take any argument
  vector and any of its tokens, and compare the classifier constructed from the vector
  cut off before that token with the one constructed from the vector cut off after it:
  the token has contributed flag entries, or one entry of the option mapping, or itself
  as one positional entry, and exactly one of the three is the case.
\<close>

theorem classification_total_exclusive:
  assumes "i < length args"
    and "Simple_init (cmd # take i args) = Inr before"
    and "Simple_init (cmd # take (Suc i) args) = Inr after"
  shows "(adds_flags (args ! i) before after \<and> \<not> sets_option (args ! i) before after \<and>
            \<not> adds_positional (args ! i) before after) \<or>
         (\<not> adds_flags (args ! i) before after \<and> sets_option (args ! i) before after \<and>
            \<not> adds_positional (args ! i) before after) \<or>
         (\<not> adds_flags (args ! i) before after \<and> \<not> sets_option (args ! i) before after \<and>
            adds_positional (args ! i) before after)"
proof -
  have "take (Suc i) args = take i args @ [args ! i]"
    using assms(1) by (simp add: take_Suc_conv_app_nth)
  with assms(3) have "Simple_init (cmd # take i args @ [args ! i]) = Inr after"
    by simp
  from Simple_init_snoc [OF assms(2) this]
  have "after = (classify (args ! i) before)\<lparr>arguments := take i args @ [args ! i]\<rparr>" .
  then show ?thesis
    using classify_exactly_one [of "args ! i" before]
    by (simp only: contribution_update_arguments)
qed

theorem classification_total_exclusive_witness:
  "Simple_init [''prog'', ''-a''] =
     Inr \<lparr>arguments = [''-a''], command = ''prog'', flags = [''a''],
          options = Map.empty, positional = []\<rparr> \<and>
   Simple_init [''prog'', ''-a'', ''--b=1''] =
     Inr \<lparr>arguments = [''-a'', ''--b=1''], command = ''prog'', flags = [''a''],
          options = [''b'' \<mapsto> Some ''1''], positional = []\<rparr> \<and>
   \<not> adds_flags ''--b=1''
       \<lparr>arguments = [''-a''], command = ''prog'', flags = [''a''],
          options = Map.empty, positional = []\<rparr>
       \<lparr>arguments = [''-a'', ''--b=1''], command = ''prog'', flags = [''a''],
          options = [''b'' \<mapsto> Some ''1''], positional = []\<rparr> \<and>
   sets_option ''--b=1''
       \<lparr>arguments = [''-a''], command = ''prog'', flags = [''a''],
          options = Map.empty, positional = []\<rparr>
       \<lparr>arguments = [''-a'', ''--b=1''], command = ''prog'', flags = [''a''],
          options = [''b'' \<mapsto> Some ''1''], positional = []\<rparr> \<and>
   \<not> adds_positional ''--b=1''
       \<lparr>arguments = [''-a''], command = ''prog'', flags = [''a''],
          options = Map.empty, positional = []\<rparr>
       \<lparr>arguments = [''-a'', ''--b=1''], command = ''prog'', flags = [''a''],
          options = [''b'' \<mapsto> Some ''1''], positional = []\<rparr>"
proof -
  let ?args = "[''-a'', ''--b=1'', ''c'']"
  let ?before = "\<lparr>arguments = [''-a''], command = ''prog'', flags = [''a''],
          options = Map.empty, positional = []\<rparr>"
  let ?after = "\<lparr>arguments = [''-a'', ''--b=1''], command = ''prog'', flags = [''a''],
          options = [''b'' \<mapsto> Some ''1''], positional = []\<rparr>"
  have h0: "1 < length ?args" by simp
  have h1: "Simple_init (''prog'' # take 1 ?args) = Inr ?before"
    by (simp add: eval_defs)
  have h2: "Simple_init (''prog'' # take (Suc 1) ?args) = Inr ?after"
    by (simp add: eval_defs)
  note one = classification_total_exclusive [OF h0 h1 h2]
  have nf: "\<not> adds_flags (?args ! 1) ?before ?after"
    by (simp add: adds_flags_def)
  have np: "\<not> adds_positional (?args ! 1) ?before ?after"
    by (simp add: adds_positional_def)
  from one nf np have so: "sets_option (?args ! 1) ?before ?after"
    by blast
  from h1 h2 nf so np show ?thesis by simp
qed

text \<open>
  C4. A token \<^verbatim>\<open>--name\<close>, the name a run of word characters and nothing after it,
  sets the option \<^verbatim>\<open>name\<close> with the value \<^verbatim>\<open>None\<close>: after the pass for it
  \<^verbatim>\<open>has_option\<close> holds and the stored value is \<^verbatim>\<open>None\<close>, which \<^verbatim>\<open>get_option\<close>
  returns, and \<^verbatim>\<open>has_option\<close> still holds on the classifier constructed from any
  argument vector that has the token. The vector
  \<^verbatim>\<open>['prog', '--first=1.2', '--second=!?', '--third']\<close> gives the mapping
  \<^verbatim>\<open>{first: '1.2', second: '!?', third: None}\<close>, no flag and no positional argument.
\<close>

theorem option_without_value:
  "(name \<noteq> [] \<and> (\<forall>c\<in>set name. is_word c) \<longrightarrow>
      classify (''--'' @ name) self = self\<lparr>options := (options self)(name \<mapsto> None)\<rparr> \<and>
      has_option (classify (''--'' @ name) self) name \<and>
      options (classify (''--'' @ name) self) name = Some None \<and>
      get_option (classify (''--'' @ name) self) name dflt None Inr = Inr PyNone \<and>
      (\<forall>cmd args parser. ''--'' @ name \<in> set args \<longrightarrow> Simple_init (cmd # args) = Inr parser \<longrightarrow>
         has_option parser name)) \<and>
   Simple_init [''prog'', ''--first=1.2'', ''--second=!?'', ''--third''] =
     Inr \<lparr>arguments = [''--first=1.2'', ''--second=!?'', ''--third''], command = ''prog'',
          flags = [],
          options = [''first'' \<mapsto> Some ''1.2'', ''second'' \<mapsto> Some ''!?'', ''third'' \<mapsto> None],
          positional = []\<rparr>"
proof (intro conjI impI)
  assume name: "name \<noteq> [] \<and> (\<forall>c\<in>set name. is_word c)"
  have om: "option_match (''--'' @ name) = Some (name, None)"
    using name option_match_name [of name "[]"] by (simp add: option_value_def)
  have fm: "flag_match (''--'' @ name) = None"
    by (simp add: flag_match_two_dashes)
  show c: "classify (''--'' @ name) self = self\<lparr>options := (options self)(name \<mapsto> None)\<rparr>"
    using name classify_option_token [of name "[]" self] by (simp add: option_value_def)
  show "has_option (classify (''--'' @ name) self) name"
    unfolding c by (simp add: has_option_def)
  show "options (classify (''--'' @ name) self) name = Some None"
    unfolding c by simp
  show "get_option (classify (''--'' @ name) self) name dflt None Inr = Inr PyNone"
    unfolding c by (simp add: get_option_def options_get_def)
  show "\<forall>cmd args parser. ''--'' @ name \<in> set args \<longrightarrow> Simple_init (cmd # args) = Inr parser \<longrightarrow>
         has_option parser name"
    using fold_classify_has_option [OF _ fm om]
    by (auto simp: Simple_init_def has_option_def)
next
  show "Simple_init [''prog'', ''--first=1.2'', ''--second=!?'', ''--third''] =
     Inr \<lparr>arguments = [''--first=1.2'', ''--second=!?'', ''--third''], command = ''prog'',
          flags = [],
          options = [''first'' \<mapsto> Some ''1.2'', ''second'' \<mapsto> Some ''!?'', ''third'' \<mapsto> None],
          positional = []\<rparr>"
    by (simp add: eval_defs)
qed

theorem option_without_value_witness:
  "has_option (classify (''--'' @ ''third'') (start ''prog'' [''--third''])) ''third'' \<and>
   options (classify (''--'' @ ''third'') (start ''prog'' [''--third''])) ''third'' = Some None \<and>
   \<not> has_option (start ''prog'' [''--third'']) ''third''"
proof -
  have h: "''third'' \<noteq> [] \<and> (\<forall>c\<in>set ''third''. is_word c)"
    by (simp add: is_word_def)
  have n: "\<not> has_option (start ''prog'' [''--third'']) ''third''"
    by (simp add: has_option_def start_def)
  from option_without_value [where name = "''third''" and self = "start ''prog'' [''--third'']"
      and dflt = "PyNone :: unit pyval"] h n
  show ?thesis by blast
qed

text \<open>
  C5. The claim: the only operations that can fail are \<^verbatim>\<open>get_option\<close>, with an
  assertion failure exactly when allowed values are supplied and the cast result is not
  one of them, and \<^verbatim>\<open>get_index\<close>, exactly when the index is out of range; nothing else
  raises. It fails: with an empty sequence of allowed values \<^verbatim>\<open>values[0]\<close> raises
  \<^verbatim>\<open>IndexError\<close> before the cast and the assertion are reached; a cast that raises (as
  \<^verbatim>\<open>int\<close> does on \<^verbatim>\<open>abc\<close>) makes \<^verbatim>\<open>get_option\<close> raise with no allowed values at all;
  and \<^verbatim>\<open>first\<close> is an operation that raises on a classifier with a positional argument.
\<close>

theorem failure_points_counterexample:
  "get_option (start ''prog'' []) ''mode'' (PyNone :: unit pyval) (Some []) Inr = Inl IndexError \<and>
   get_option (start ''prog'' []) ''mode'' (PyNone :: unit pyval) (Some []) Inr \<noteq> Inl AssertionError \<and>
   map_sum id (\<lambda>parser. get_option parser ''n'' (PyNone :: unit pyval) None
       (\<lambda>raw. if raw = PyStr ''abc'' then Inl (Raised ''ValueError'') else Inr raw))
     (Simple_init [''prog'', ''--n=abc'']) = Inr (Inl (Raised ''ValueError'')) \<and>
   map_sum id first (Simple_init [''prog'', ''x'']) = Inr (Inl AttributeError)"
  by (simp add: get_option_def subscript_def options_get_def start_def eval_defs
      first_def call_attribute_def getattr_def Simple_fields_def Simple_methods_def)

text \<open>
  C5, as amended. \<^verbatim>\<open>get_option\<close> and \<^verbatim>\<open>get_index\<close> fail at the call, on these inputs
  and no others. \<^verbatim>\<open>get_option\<close> raises \<^verbatim>\<open>IndexError\<close> when the allowed values are
  supplied and empty. Otherwise the cast is applied to the value looked up, which is
  the first of the allowed values when they are supplied and the option is absent. If
  the cast raises, \<^verbatim>\<open>get_option\<close> raises the same. If the cast returns, \<^verbatim>\<open>get_option\<close>
  returns its result when no allowed values are supplied, and with allowed values
  \<open>v # vs\<close> it raises \<^verbatim>\<open>AssertionError\<close> exactly when the result is not among them.
  \<^verbatim>\<open>get_index\<close> raises exactly when the index \<open>i\<close> is outside \<open>-n \<le> i < n\<close> for \<open>n\<close>
  positional arguments, and what it raises is \<^verbatim>\<open>IndexError\<close>; inside, a negative index
  counts from the end.
\<close>

theorem failure_points:
  "get_option self name dflt (Some []) cast = Inl IndexError \<and>
   (cast (options_get self name dflt) = Inr y \<longrightarrow> get_option self name dflt None cast = Inr y) \<and>
   (cast (options_get self name v) = Inr y \<longrightarrow>
      get_option self name dflt (Some (v # vs)) cast =
        (if y \<in> set (v # vs) then Inr y else Inl AssertionError)) \<and>
   (options self name = None \<longrightarrow> options_get self name v = v) \<and>
   (cast (options_get self name dflt) = Inl e \<longrightarrow> get_option self name dflt None cast = Inl e) \<and>
   (cast (options_get self name v) = Inl e \<longrightarrow>
      get_option self name dflt (Some (v # vs)) cast = Inl e) \<and>
   ((\<exists>e. get_index self i = Inl e) \<longleftrightarrow>
      i < - int (length (positional self)) \<or> int (length (positional self)) \<le> i) \<and>
   (get_index self i = Inl IndexError \<longleftrightarrow>
      i < - int (length (positional self)) \<or> int (length (positional self)) \<le> i) \<and>
   (0 \<le> i \<and> i < int (length (positional self)) \<longrightarrow>
      get_index self i = Inr (positional self ! nat i)) \<and>
   (- int (length (positional self)) \<le> i \<and> i < 0 \<longrightarrow>
      get_index self i = Inr (positional self ! nat (i + int (length (positional self)))))"
proof (intro conjI)
  show "get_option self name dflt (Some []) cast = Inl IndexError"
    by (simp add: get_option_def subscript_def)
  show "cast (options_get self name dflt) = Inr y \<longrightarrow> get_option self name dflt None cast = Inr y"
    by (simp add: get_option_def)
  show "cast (options_get self name v) = Inr y \<longrightarrow>
      get_option self name dflt (Some (v # vs)) cast =
        (if y \<in> set (v # vs) then Inr y else Inl AssertionError)"
    by (simp add: get_option_def subscript_def)
  show "options self name = None \<longrightarrow> options_get self name v = v"
    by (simp add: options_get_def)
  show "cast (options_get self name dflt) = Inl e \<longrightarrow> get_option self name dflt None cast = Inl e"
    by (simp add: get_option_def)
  show "cast (options_get self name v) = Inl e \<longrightarrow>
      get_option self name dflt (Some (v # vs)) cast = Inl e"
    by (simp add: get_option_def subscript_def)
  show "(\<exists>e. get_index self i = Inl e) \<longleftrightarrow>
      i < - int (length (positional self)) \<or> int (length (positional self)) \<le> i"
    by (auto simp: get_index_def subscript_def)
  show "get_index self i = Inl IndexError \<longleftrightarrow>
      i < - int (length (positional self)) \<or> int (length (positional self)) \<le> i"
    by (auto simp: get_index_def subscript_def)
  show "0 \<le> i \<and> i < int (length (positional self)) \<longrightarrow>
      get_index self i = Inr (positional self ! nat i)"
    by (simp add: get_index_def subscript_def)
  show "- int (length (positional self)) \<le> i \<and> i < 0 \<longrightarrow>
      get_index self i = Inr (positional self ! nat (i + int (length (positional self))))"
    by (simp add: get_index_def subscript_def)
qed

theorem failure_points_witness:
  "get_option (start ''prog'' []\<lparr>options := [''mode'' \<mapsto> Some ''slow''], positional := [''x'', ''y'']\<rparr>)
      ''mode'' (PyNone :: unit pyval) (Some [PyStr ''fast'', PyStr ''slow'']) Inr
     = Inr (PyStr ''slow'') \<and>
   get_option (start ''prog'' []\<lparr>options := [''mode'' \<mapsto> Some ''slow''], positional := [''x'', ''y'']\<rparr>)
      ''mode'' (PyNone :: unit pyval) (Some [PyStr ''fast'']) Inr
     = Inl AssertionError \<and>
   get_option (start ''prog'' []\<lparr>options := [''mode'' \<mapsto> Some ''slow''], positional := [''x'', ''y'']\<rparr>)
      ''speed'' (PyNone :: unit pyval) (Some [PyStr ''fast'', PyStr ''slow'']) Inr
     = Inr (PyStr ''fast'') \<and>
   get_option (start ''prog'' []\<lparr>options := [''mode'' \<mapsto> Some ''slow''], positional := [''x'', ''y'']\<rparr>)
      ''mode'' (PyNone :: unit pyval) None Inr
     = Inr (PyStr ''slow'') \<and>
   get_option (start ''prog'' []\<lparr>options := [''mode'' \<mapsto> Some ''slow''], positional := [''x'', ''y'']\<rparr>)
      ''mode'' (PyNone :: unit pyval) None
      (\<lambda>raw. if raw = PyStr ''slow'' then Inl (Raised ''ValueError'') else Inr raw)
     = Inl (Raised ''ValueError'') \<and>
   get_index (start ''prog'' []\<lparr>options := [''mode'' \<mapsto> Some ''slow''], positional := [''x'', ''y'']\<rparr>) 2
     = Inl IndexError \<and>
   get_index (start ''prog'' []\<lparr>options := [''mode'' \<mapsto> Some ''slow''], positional := [''x'', ''y'']\<rparr>) 1
     = Inr ''y'' \<and>
   get_index (start ''prog'' []\<lparr>options := [''mode'' \<mapsto> Some ''slow''], positional := [''x'', ''y'']\<rparr>) (- 1)
     = Inr ''y''"
  using
    failure_points [where self = "start ''prog'' []\<lparr>options := [''mode'' \<mapsto> Some ''slow''], positional := [''x'', ''y'']\<rparr>"
      and name = "''mode''" and dflt = "PyNone :: unit pyval" and v = "PyStr ''fast''"
      and vs = "[PyStr ''slow'']" and y = "PyStr ''slow''" and i = 2
      and cast = "\<lambda>raw. if raw = PyStr ''slow'' then Inl (Raised ''ValueError'') else Inr raw"
      and e = "Raised ''ValueError''"]
    failure_points [where self = "start ''prog'' []\<lparr>options := [''mode'' \<mapsto> Some ''slow''], positional := [''x'', ''y'']\<rparr>"
      and name = "''mode''" and dflt = "PyNone :: unit pyval" and v = "PyStr ''fast''"
      and vs = "[PyStr ''slow'']" and y = "PyStr ''slow''" and i = 1 and cast = Inr
      and e = IndexError]
    failure_points [where self = "start ''prog'' []\<lparr>options := [''mode'' \<mapsto> Some ''slow''], positional := [''x'', ''y'']\<rparr>"
      and name = "''mode''" and dflt = "PyNone :: unit pyval" and v = "PyStr ''fast''"
      and vs = "[]" and y = "PyStr ''slow''" and i = 1 and cast = Inr and e = IndexError]
    failure_points [where self = "start ''prog'' []\<lparr>options := [''mode'' \<mapsto> Some ''slow''], positional := [''x'', ''y'']\<rparr>"
      and name = "''speed''" and dflt = "PyNone :: unit pyval" and v = "PyStr ''fast''"
      and vs = "[PyStr ''slow'']" and y = "PyStr ''fast''" and i = "- 1" and cast = Inr
      and e = IndexError]
  by (simp add: options_get_def start_def)

text \<open>
  C6. \<^verbatim>\<open>has_any\<close> is true exactly when one of the names is in the flag list or is a key
  of the option mapping, and \<^verbatim>\<open>has_all\<close> exactly when every name is.
\<close>

theorem has_any_has_all_iff:
  "(has_any self names \<longleftrightarrow>
      (\<exists>name \<in> set names. name \<in> set (flags self) \<or> name \<in> dom (options self))) \<and>
   (has_all self names \<longleftrightarrow>
      (\<forall>name \<in> set names. name \<in> set (flags self) \<or> name \<in> dom (options self)))"
  by (induction names) (auto simp: has_flag_def has_option_def)

theorem has_any_has_all_iff_witness:
  "has_any (start ''prog'' []\<lparr>flags := [''a''], options := [''long'' \<mapsto> None]\<rparr>) [''x'', ''long''] \<and>
   \<not> has_all (start ''prog'' []\<lparr>flags := [''a''], options := [''long'' \<mapsto> None]\<rparr>) [''x'', ''long''] \<and>
   has_all (start ''prog'' []\<lparr>flags := [''a''], options := [''long'' \<mapsto> None]\<rparr>) [''a'', ''long'']"
  using has_any_has_all_iff [of "start ''prog'' []\<lparr>flags := [''a''], options := [''long'' \<mapsto> None]\<rparr>" "[''x'', ''long'']"]
    has_any_has_all_iff [of "start ''prog'' []\<lparr>flags := [''a''], options := [''long'' \<mapsto> None]\<rparr>" "[''a'', ''long'']"]
  by (simp add: start_def del: has_any.simps has_all.simps)

text \<open>
  C7. The positional list of a constructed classifier is the subsequence of the
  argument tokens that match neither pattern, in the order of the argument vector, so
  \<^verbatim>\<open>get_index(0)\<close>, \<^verbatim>\<open>get_index(1)\<close>, ... return them from left to right wherever
  flag and option tokens stand between them.
\<close>

theorem get_index_order:
  "Simple_init (cmd # args) = Inr parser \<Longrightarrow>
     positional parser = filter (\<lambda>t. flag_match t = None \<and> option_match t = None) args \<and>
     (\<forall>i < length (positional parser).
        get_index parser (int i) =
          Inr (filter (\<lambda>t. flag_match t = None \<and> option_match t = None) args ! i))"
  by (auto simp: Simple_init_def classify_positional start_def get_index_def subscript_def)

theorem get_index_order_witness:
  "Simple_init [''prog'', ''x'', ''-f'', ''y'', ''--o=1'', ''z''] =
     Inr \<lparr>arguments = [''x'', ''-f'', ''y'', ''--o=1'', ''z''], command = ''prog'',
          flags = [''f''], options = [''o'' \<mapsto> Some ''1''], positional = [''x'', ''y'', ''z'']\<rparr> \<and>
   get_index \<lparr>arguments = [''x'', ''-f'', ''y'', ''--o=1'', ''z''], command = ''prog'',
          flags = [''f''], options = [''o'' \<mapsto> Some ''1''], positional = [''x'', ''y'', ''z'']\<rparr> 0
     = Inr ''x'' \<and>
   get_index \<lparr>arguments = [''x'', ''-f'', ''y'', ''--o=1'', ''z''], command = ''prog'',
          flags = [''f''], options = [''o'' \<mapsto> Some ''1''], positional = [''x'', ''y'', ''z'']\<rparr> 1
     = Inr ''y'' \<and>
   get_index \<lparr>arguments = [''x'', ''-f'', ''y'', ''--o=1'', ''z''], command = ''prog'',
          flags = [''f''], options = [''o'' \<mapsto> Some ''1''], positional = [''x'', ''y'', ''z'']\<rparr> 2
     = Inr ''z''"
proof -
  have h: "Simple_init [''prog'', ''x'', ''-f'', ''y'', ''--o=1'', ''z''] =
     Inr \<lparr>arguments = [''x'', ''-f'', ''y'', ''--o=1'', ''z''], command = ''prog'',
          flags = [''f''], options = [''o'' \<mapsto> Some ''1''], positional = [''x'', ''y'', ''z'']\<rparr>"
    by (simp add: eval_defs)
  have f: "filter (\<lambda>t. flag_match t = None \<and> option_match t = None)
      [''x'', ''-f'', ''y'', ''--o=1'', ''z''] = [''x'', ''y'', ''z'']"
    by (simp add: eval_defs)
  from get_index_order [OF h] have
    "\<forall>i<3. get_index \<lparr>arguments = [''x'', ''-f'', ''y'', ''--o=1'', ''z''], command = ''prog'',
          flags = [''f''], options = [''o'' \<mapsto> Some ''1''], positional = [''x'', ''y'', ''z'']\<rparr> (int i)
       = Inr ([''x'', ''y'', ''z''] ! i)"
    unfolding f by simp
  from this [rule_format, of 0] this [rule_format, of 1] this [rule_format, of 2] h
  show ?thesis by simp
qed

text \<open>
  C8. The claim: \<^verbatim>\<open>command\<close> with \<^verbatim>\<open>strip\<close> enabled returns the final path segment of
  the stored command name. The function takes \<^verbatim>\<open>strip\<close> and returns
  \<^verbatim>\<open>parser.get_command()\<close> whatever it is: for \<^verbatim>\<open>/usr/local/bin/prog\<close> the result
  keeps the directories, with \<^verbatim>\<open>strip\<close> true as with \<^verbatim>\<open>strip\<close> false.
\<close>

theorem command_strip_ignored:
  "map_sum id (module_command True) (Simple_init [''/usr/local/bin/prog'', ''x''])
     = Inr ''/usr/local/bin/prog'' \<and>
   map_sum id (module_command False) (Simple_init [''/usr/local/bin/prog'', ''x''])
     = Inr ''/usr/local/bin/prog''"
  by (simp add: eval_defs module_command_def get_command_def)

text \<open>
  C9. Both patterns are matched at the start of the token and nothing is asked of what
  follows the match. On a classifier constructed from any argument vector, a token that
  begins with a dash and a word character, or with two dashes and a word character, is
  never in the positional list. Appending such a token to an argument vector changes
  the constructed classifier by what the matched prefix says, and the tail leaves no
  trace. A dash, a run of word characters and a tail that does not go on with a word
  character: the run is appended as a flag entry. Two dashes, such a run and a tail
  that is not \<^verbatim>\<open>=\<close> followed by a character other than white space: the option named
  by the run is set to \<^verbatim>\<open>None\<close>; this covers \<^verbatim>\<open>--name=\<close> and \<^verbatim>\<open>--name= x\<close>. Two dashes,
  the run, \<^verbatim>\<open>=\<close>, a value without white space and a tail that begins with white space:
  the option is set to the value. The vector
  \<^verbatim>\<open>['prog', '-ab.txt', '--name!rest', '--empty=', '--blank= x', '--size=10 px']\<close>
  gives the flag entry \<^verbatim>\<open>ab\<close>, the options \<^verbatim>\<open>name\<close>, \<^verbatim>\<open>empty\<close> and \<^verbatim>\<open>blank\<close> without
  a value, \<^verbatim>\<open>size\<close> with the value \<^verbatim>\<open>10\<close>, and no positional argument.
\<close>

theorem prefix_match_discards_tail:
  "(\<forall>parser. Simple_init (cmd # args) = Inr parser \<longrightarrow> is_word c \<longrightarrow>
      CHR ''-'' # c # rest \<notin> set (positional parser) \<and>
      ''--'' @ c # rest \<notin> set (positional parser)) \<and>
   (\<forall>before after.
      Simple_init (cmd # args) = Inr before \<longrightarrow>
      Simple_init (cmd # args @ [CHR ''-'' # run @ tail]) = Inr after \<longrightarrow>
      run \<noteq> [] \<and> (\<forall>c\<in>set run. is_word c) \<and> (tail = [] \<or> \<not> is_word (hd tail)) \<longrightarrow>
        flags after = flags before @ [run] \<and>
        options after = options before \<and>
        positional after = positional before) \<and>
   (\<forall>before after.
      Simple_init (cmd # args) = Inr before \<longrightarrow>
      Simple_init (cmd # args @ [''--'' @ run @ tail]) = Inr after \<longrightarrow>
      run \<noteq> [] \<and> (\<forall>c\<in>set run. is_word c) \<and> (tail = [] \<or> \<not> is_word (hd tail)) \<and>
      (tail = [] \<or> hd tail \<noteq> CHR ''='' \<or> tl tail = [] \<or> is_space (hd (tl tail))) \<longrightarrow>
        flags after = flags before \<and>
        options after = (options before)(run \<mapsto> None) \<and>
        positional after = positional before) \<and>
   (\<forall>before after.
      Simple_init (cmd # args) = Inr before \<longrightarrow>
      Simple_init (cmd # args @ [''--'' @ run @ ''='' @ v @ tail]) = Inr after \<longrightarrow>
      run \<noteq> [] \<and> (\<forall>c\<in>set run. is_word c) \<and> v \<noteq> [] \<and> (\<forall>c\<in>set v. \<not> is_space c) \<and>
      (tail = [] \<or> is_space (hd tail)) \<longrightarrow>
        flags after = flags before \<and>
        options after = (options before)(run \<mapsto> Some v) \<and>
        positional after = positional before) \<and>
   Simple_init [''prog'', ''-ab.txt'', ''--name!rest'', ''--empty='', ''--blank= x'',
       ''--size=10 px''] =
     Inr \<lparr>arguments = [''-ab.txt'', ''--name!rest'', ''--empty='', ''--blank= x'',
                       ''--size=10 px''],
          command = ''prog'',
          flags = [''ab''],
          options = [''name'' \<mapsto> None, ''empty'' \<mapsto> None, ''blank'' \<mapsto> None,
                     ''size'' \<mapsto> Some ''10''],
          positional = []\<rparr>"
proof (intro conjI allI impI)
  fix parser
  assume p: "Simple_init (cmd # args) = Inr parser" and w: "is_word c"
  from w have "flag_match (CHR ''-'' # c # rest) \<noteq> None"
    by (simp add: flag_match_def)
  with positional_matches_neither [OF p, of "CHR ''-'' # c # rest"]
  show "CHR ''-'' # c # rest \<notin> set (positional parser)" by blast
  from w have "option_match (''--'' @ c # rest) \<noteq> None"
    by (simp add: option_match_def)
  with positional_matches_neither [OF p, of "''--'' @ c # rest"]
  show "''--'' @ c # rest \<notin> set (positional parser)" by blast
next
  fix before after
  assume b: "Simple_init (cmd # args) = Inr before"
    and a: "Simple_init (cmd # args @ [CHR ''-'' # run @ tail]) = Inr after"
    and h: "run \<noteq> [] \<and> (\<forall>c\<in>set run. is_word c) \<and> (tail = [] \<or> \<not> is_word (hd tail))"
  from h have c: "classify (CHR ''-'' # run @ tail) before = before\<lparr>flags := flags before @ [run]\<rparr>"
    by (simp add: classify_flag_token)
  show "flags after = flags before @ [run]"
    using Simple_init_snoc_collections(1) [OF b a] c by simp
  show "options after = options before"
    using Simple_init_snoc_collections(2) [OF b a] c by simp
  show "positional after = positional before"
    using Simple_init_snoc_collections(3) [OF b a] c by simp
next
  fix before after
  assume b: "Simple_init (cmd # args) = Inr before"
    and a: "Simple_init (cmd # args @ [''--'' @ run @ tail]) = Inr after"
    and h: "run \<noteq> [] \<and> (\<forall>c\<in>set run. is_word c) \<and> (tail = [] \<or> \<not> is_word (hd tail)) \<and>
      (tail = [] \<or> hd tail \<noteq> CHR ''='' \<or> tl tail = [] \<or> is_space (hd (tl tail)))"
  from h have "option_value tail = None"
    by (intro option_value_none) blast
  moreover from h have "classify (''--'' @ run @ tail) before
       = before\<lparr>options := (options before)(run \<mapsto> option_value tail)\<rparr>"
    by (intro classify_option_token) auto
  ultimately have c: "classify (''--'' @ run @ tail) before
       = before\<lparr>options := (options before)(run \<mapsto> None)\<rparr>"
    by simp
  show "flags after = flags before"
    using Simple_init_snoc_collections(1) [OF b a] c by simp
  show "options after = (options before)(run \<mapsto> None)"
    using Simple_init_snoc_collections(2) [OF b a] c by simp
  show "positional after = positional before"
    using Simple_init_snoc_collections(3) [OF b a] c by simp
next
  fix before after
  assume b: "Simple_init (cmd # args) = Inr before"
    and a: "Simple_init (cmd # args @ [''--'' @ run @ ''='' @ v @ tail]) = Inr after"
    and h: "run \<noteq> [] \<and> (\<forall>c\<in>set run. is_word c) \<and> v \<noteq> [] \<and> (\<forall>c\<in>set v. \<not> is_space c) \<and>
      (tail = [] \<or> is_space (hd tail))"
  from h have "option_value (CHR ''='' # v @ tail) = Some v"
    by (intro option_value_run) auto
  moreover from h have "classify (''--'' @ run @ (CHR ''='' # v @ tail)) before
       = before\<lparr>options := (options before)(run \<mapsto> option_value (CHR ''='' # v @ tail))\<rparr>"
    by (intro classify_option_token) (auto simp: not_word_equals)
  ultimately have c: "classify (''--'' @ run @ ''='' @ v @ tail) before
        = before\<lparr>options := (options before)(run \<mapsto> Some v)\<rparr>"
    by simp
  show "flags after = flags before"
    using Simple_init_snoc_collections(1) [OF b a] c by simp
  show "options after = (options before)(run \<mapsto> Some v)"
    using Simple_init_snoc_collections(2) [OF b a] c by simp
  show "positional after = positional before"
    using Simple_init_snoc_collections(3) [OF b a] c by simp
next
  show "Simple_init [''prog'', ''-ab.txt'', ''--name!rest'', ''--empty='', ''--blank= x'',
       ''--size=10 px''] =
     Inr \<lparr>arguments = [''-ab.txt'', ''--name!rest'', ''--empty='', ''--blank= x'',
                       ''--size=10 px''],
          command = ''prog'',
          flags = [''ab''],
          options = [''name'' \<mapsto> None, ''empty'' \<mapsto> None, ''blank'' \<mapsto> None,
                     ''size'' \<mapsto> Some ''10''],
          positional = []\<rparr>"
    by (simp add: eval_defs)
qed

theorem prefix_match_discards_tail_witness:
  "map_sum id (\<lambda>parser. (flags parser, options parser ''ab'', positional parser))
     (Simple_init [''prog'', ''x'', ''-ab.txt'']) = Inr ([''ab''], None, [''x'']) \<and>
   map_sum id (\<lambda>parser. (flags parser, options parser ''ab'', positional parser))
     (Simple_init [''prog'', ''x'', ''--ab='']) = Inr ([], Some None, [''x'']) \<and>
   map_sum id (\<lambda>parser. (flags parser, options parser ''ab'', positional parser))
     (Simple_init [''prog'', ''x'', ''--ab=1 2'']) = Inr ([], Some (Some ''1''), [''x''])"
proof -
  define flag_case where
    "flag_case = fold classify [''x'', ''-ab.txt''] (start ''prog'' [''x'', ''-ab.txt''])"
  define none_case where
    "none_case = fold classify [''x'', ''--ab=''] (start ''prog'' [''x'', ''--ab=''])"
  define value_case where
    "value_case = fold classify [''x'', ''--ab=1 2''] (start ''prog'' [''x'', ''--ab=1 2''])"
  have b: "Simple_init [''prog'', ''x''] =
      Inr \<lparr>arguments = [''x''], command = ''prog'', flags = [], options = Map.empty,
           positional = [''x'']\<rparr>"
    by (simp add: eval_defs)
  have a1: "Simple_init [''prog'', ''x'', ''-ab.txt''] = Inr flag_case"
    by (simp add: Simple_init_def flag_case_def)
  have a2: "Simple_init [''prog'', ''x'', ''--ab=''] = Inr none_case"
    by (simp add: Simple_init_def none_case_def)
  have a3: "Simple_init [''prog'', ''x'', ''--ab=1 2''] = Inr value_case"
    by (simp add: Simple_init_def value_case_def)
  have run: "''ab'' \<noteq> [] \<and> (\<forall>c\<in>set ''ab''. is_word c)"
    by (simp add: is_word_def)
  have f: "flags flag_case = [''ab''] \<and> options flag_case = Map.empty \<and>
      positional flag_case = [''x'']"
    using prefix_match_discards_tail [where cmd = "''prog''" and args = "[''x'']"
        and run = "''ab''" and tail = "''.txt''" and c = "CHR ''a''" and rest = "''b''"
        and v = "''1''"] b a1 run
    by (simp add: is_word_def)
  have n: "flags none_case = [] \<and> options none_case = [''ab'' \<mapsto> None] \<and>
      positional none_case = [''x'']"
    using prefix_match_discards_tail [where cmd = "''prog''" and args = "[''x'']"
        and run = "''ab''" and tail = "''=''" and c = "CHR ''a''" and rest = "''b''"
        and v = "''1''"] b a2 run
    by (simp add: is_word_def)
  have v: "flags value_case = [] \<and> options value_case = [''ab'' \<mapsto> Some ''1''] \<and>
      positional value_case = [''x'']"
    using prefix_match_discards_tail [where cmd = "''prog''" and args = "[''x'']"
        and run = "''ab''" and tail = "'' 2''" and c = "CHR ''a''" and rest = "''b''"
        and v = "''1''"] b a3 run
    by (simp add: is_word_def is_space_def)
  show ?thesis
    unfolding a1 a2 a3 using f n v by simp
qed

text \<open>
  C10. \<^verbatim>\<open>first\<close>, \<^verbatim>\<open>second\<close> and \<^verbatim>\<open>third\<close> fail with an attribute error for every
  classifier: the name \<^verbatim>\<open>index\<close> they look up is neither an attribute nor a method of
  \<^verbatim>\<open>Simple\<close>, whose positional accessor is \<^verbatim>\<open>get_index\<close>. No positional argument is
  ever returned.
\<close>

theorem first_second_third_fail:
  "first parser = Inl AttributeError \<and>
   second parser = Inl AttributeError \<and>
   third parser = Inl AttributeError"
  by (simp add: first_def second_def third_def call_attribute_def getattr_def
      Simple_fields_def Simple_methods_def)

end
